theory Spec2Isabelle
  imports Complex_Main "HOL-Library.AList" "HOL-Library.Multiset"
begin

section \<open>The timeline of \<^verbatim>\<open>timeline.py\<close>\<close>

text \<open>
  The module defines four value classes (\<^verbatim>\<open>Age\<close>, \<^verbatim>\<open>Period\<close>, \<^verbatim>\<open>Event\<close>,
  \<^verbatim>\<open>Country\<close>) and the class \<^verbatim>\<open>Timeline\<close>, which keeps one dictionary per value
  class and draws them with matplotlib.

  Numbers. Years, y positions and opacities are Python floats (or ints); they are read here
  as real numbers with exact arithmetic, so rounding, infinities and NaN are outside the
  model. Floor division \<^verbatim>\<open>//\<close> is the floor of the quotient.

  Dictionaries. A Python \<^verbatim>\<open>dict\<close> iterates in the order in which its keys were first
  inserted, and \<^verbatim>\<open>d[k] = v\<close> on a key that is present keeps the key's position. The
  fence computation reads \<^verbatim>\<open>self.countries.values()\<close> in that order, so a dictionary is
  an association list and \<^verbatim>\<open>d[k] = v\<close> is \<^const>\<open>AList.update\<close>: replace in place, or
  append at the end.
\<close>

subsection \<open>The value classes\<close>

record Age =
  age_start :: real
  age_end :: real
  age_color :: string
  age_y :: real
  age_top_alpha :: real
  age_bottom_alpha :: real
  age_url :: "string option"

record Period =
  period_start :: real
  period_end :: real
  period_y :: real
  period_color :: string
  period_alpha :: real
  period_fontsize :: real
  period_bold :: bool
  period_h :: real
  period_url :: "string option"

record Event =
  event_year :: real
  event_y :: real
  event_color :: string
  event_fontsize :: real
  event_bold :: bool
  event_url :: "string option"

record Country =
  country_y :: real
  country_url :: "string option"

text \<open>A keyword parameter with a default: \<open>None\<close> is the argument left out.\<close>

definition default_arg :: "'a \<Rightarrow> 'a option \<Rightarrow> 'a" where
  "default_arg d opt = (case opt of None \<Rightarrow> d | Some v \<Rightarrow> v)"

text \<open>The four \<^verbatim>\<open>__init__\<close> methods store their arguments verbatim.\<close>

definition Age_init ::
  "real \<Rightarrow> real \<Rightarrow> string \<Rightarrow> real option \<Rightarrow> real option \<Rightarrow> real option \<Rightarrow> string option \<Rightarrow> Age"
where
  "Age_init start end' color y top_alpha bottom_alpha url =
     \<lparr>age_start = start, age_end = end', age_color = color,
      age_y = default_arg (9 / 10) y,
      age_top_alpha = default_arg (1 / 2) top_alpha,
      age_bottom_alpha = default_arg (1 / 10) bottom_alpha,
      age_url = url\<rparr>"

definition Period_init ::
  "real \<Rightarrow> real \<Rightarrow> real \<Rightarrow> string \<Rightarrow> real option \<Rightarrow> real option \<Rightarrow> bool option \<Rightarrow> real option
     \<Rightarrow> string option \<Rightarrow> Period"
where
  "Period_init start end' y color alpha fontsize bold h url =
     \<lparr>period_start = start, period_end = end', period_y = y, period_color = color,
      period_alpha = default_arg (4 / 10) alpha,
      period_fontsize = default_arg 10 fontsize,
      period_bold = default_arg False bold,
      period_h = default_arg (25 / 1000) h,
      period_url = url\<rparr>"

definition Event_init ::
  "real \<Rightarrow> real \<Rightarrow> string option \<Rightarrow> real option \<Rightarrow> bool option \<Rightarrow> string option \<Rightarrow> Event"
where
  "Event_init year y color fontsize bold url =
     \<lparr>event_year = year, event_y = y,
      event_color = default_arg ''k'' color,
      event_fontsize = default_arg 8 fontsize,
      event_bold = default_arg True bold,
      event_url = url\<rparr>"

definition Country_init :: "real \<Rightarrow> string option \<Rightarrow> Country" where
  "Country_init y url = \<lparr>country_y = y, country_url = url\<rparr>"

subsection \<open>The Timeline and its insertion methods\<close>

type_synonym 'v dict = "(string \<times> 'v) list"

definition dict_values :: "'v dict \<Rightarrow> 'v list" where
  "dict_values d = map snd d"

definition dict_get :: "'v dict \<Rightarrow> string \<Rightarrow> 'v option" where
  "dict_get d k = map_of d k"

definition dict_set :: "'v dict \<Rightarrow> string \<Rightarrow> 'v \<Rightarrow> 'v dict" where
  "dict_set d k v = AList.update k v d"

record Timeline =
  ages :: "Age dict"
  periods :: "Period dict"
  countries :: "Country dict"
  events :: "Event dict"

definition Timeline_init :: Timeline where
  "Timeline_init = \<lparr>ages = [], periods = [], countries = [], events = []\<rparr>"

definition add_age ::
  "string \<Rightarrow> real \<Rightarrow> real \<Rightarrow> string \<Rightarrow> real option \<Rightarrow> real option \<Rightarrow> real option \<Rightarrow> string option
     \<Rightarrow> Timeline \<Rightarrow> Timeline"
where
  "add_age name start end' color y top_alpha bottom_alpha url t =
     t\<lparr>ages := dict_set (ages t) name (Age_init start end' color y top_alpha bottom_alpha url)\<rparr>"

definition add_period ::
  "string \<Rightarrow> real \<Rightarrow> real \<Rightarrow> real \<Rightarrow> string \<Rightarrow> real option \<Rightarrow> real option \<Rightarrow> bool option
     \<Rightarrow> real option \<Rightarrow> string option \<Rightarrow> Timeline \<Rightarrow> Timeline"
where
  "add_period name start end' y color alpha fontsize bold h url t =
     t\<lparr>periods :=
         dict_set (periods t) name (Period_init start end' y color alpha fontsize bold h url)\<rparr>"

definition add_event ::
  "string \<Rightarrow> real \<Rightarrow> real \<Rightarrow> string option \<Rightarrow> real option \<Rightarrow> bool option \<Rightarrow> string option
     \<Rightarrow> Timeline \<Rightarrow> Timeline"
where
  "add_event name year y color fontsize bold url t =
     t\<lparr>events := dict_set (events t) name (Event_init year y color fontsize bold url)\<rparr>"

definition add_country :: "string \<Rightarrow> real \<Rightarrow> string option \<Rightarrow> Timeline \<Rightarrow> Timeline" where
  "add_country name y url t =
     t\<lparr>countries := dict_set (countries t) name (Country_init y url)\<rparr>"

subsection \<open>Range derivation\<close>

text \<open>
  \<^verbatim>\<open>np.min\<close> and \<^verbatim>\<open>np.max\<close> raise \<^verbatim>\<open>ValueError\<close> (zero-size array to reduction
  operation which has no identity) on an empty array. \<open>EmptyTimelineError\<close> is the error
  the specification names for a timeline without temporal data; no function of the module
  raises it.
\<close>

datatype error = ValueError | EmptyTimelineError

fun np_min :: "real list \<Rightarrow> error + real" where
  "np_min [] = Inl ValueError"
| "np_min (x # xs) = Inr (fold min xs x)"

fun np_max :: "real list \<Rightarrow> error + real" where
  "np_max [] = Inl ValueError"
| "np_max (x # xs) = Inr (fold max xs x)"

definition all_years :: "Timeline \<Rightarrow> real list" where
  "all_years t =
     (let ages_years = concat (map (\<lambda>age. [age_start age, age_end age]) (dict_values (ages t)));
          periods_years =
            concat (map (\<lambda>age. [period_start age, period_end age]) (dict_values (periods t)));
          events_years = map (\<lambda>event. event_year event) (dict_values (events t))
      in ages_years @ periods_years @ events_years)"

definition start :: "Timeline \<Rightarrow> error + real" where
  "start t = np_min (all_years t)"

definition end' :: "Timeline \<Rightarrow> error + real" where
  "end' t = np_max (all_years t)"

subsection \<open>Fence placement\<close>

text \<open>Raising propagates: the first error ends the computation.\<close>

definition bind_result :: "error + 'a \<Rightarrow> ('a \<Rightarrow> error + 'b) \<Rightarrow> error + 'b" where
  "bind_result m f = (case m of Inl e \<Rightarrow> Inl e | Inr v \<Rightarrow> f v)"

text \<open>
  The block of \<^verbatim>\<open>plot\<close> that computes \<^verbatim>\<open>y_fences\<close> from \<^verbatim>\<open>y_countries\<close>, the y
  positions in the order of \<^verbatim>\<open>self.countries.values()\<close>. The slices
  \<^verbatim>\<open>y_countries[1:]\<close> and \<^verbatim>\<open>y_countries[:-1]\<close> are \<^const>\<open>tl\<close> and \<^const>\<open>butlast\<close>;
  nothing sorts the array.
\<close>

definition y_fences :: "real list \<Rightarrow> error + real list" where
  "y_fences y_countries =
     (if length y_countries > 1 then
        (let between = map2 (\<lambda>a b. (a + b) / 2) (tl y_countries) (butlast y_countries)
         in bind_result (np_max y_countries) (\<lambda>top.
            bind_result (np_max between) (\<lambda>top_fence.
              Inr (between @ [2 * top - top_fence]))))
      else Inr (map (\<lambda>y. 2 * y) y_countries))"

definition y_countries_of :: "Timeline \<Rightarrow> real list" where
  "y_countries_of t = map (\<lambda>country. country_y country) (dict_values (countries t))"

subsection \<open>Axis ticks\<close>

definition floordiv :: "real \<Rightarrow> real \<Rightarrow> real" where
  "floordiv a b = of_int \<lfloor>a / b\<rfloor>"

text \<open>\<^verbatim>\<open>np.arange(a, b, step)\<close>: \<open>\<lceil>(b - a) / step\<rceil>\<close> values from \<open>a\<close>, \<open>b\<close> excluded.\<close>

definition arange :: "real \<Rightarrow> real \<Rightarrow> real \<Rightarrow> real list" where
  "arange a b step = map (\<lambda>i. a + of_nat i * step) [0..<nat \<lceil>(b - a) / step\<rceil>]"

definition first_tick :: "real \<Rightarrow> real" where
  "first_tick s = (floordiv (s - 1) 100 + 1) * 100"

definition final_tick :: "real \<Rightarrow> real" where
  "final_tick e = (floordiv e 100 + 1) * 100"

definition xticks :: "Timeline \<Rightarrow> error + real list" where
  "xticks t =
     bind_result (start t) (\<lambda>s.
     bind_result (end' t) (\<lambda>e.
       Inr (arange (first_tick s) (final_tick e) 100)))"

subsection \<open>Rendering\<close>

record plot_args =
  figsize :: "real \<times> real"
  dpi :: int
  country_offset :: real
  fences :: bool
  fence_color :: string
  fence_alpha :: real
  hide_yaxis :: bool

definition plot_defaults :: plot_args where
  "plot_defaults =
     \<lparr>figsize = (16, 10), dpi = 100, country_offset = 10, fences = True,
      fence_color = ''k'', fence_alpha = 2 / 10, hide_yaxis = True\<rparr>"

record text_props =
  text_url :: "string option"
  text_c :: "string option"
  text_fontsize :: "real option"
  text_weight :: "string option"
  text_ha :: string
  text_va :: string

text \<open>The calls made on the matplotlib axes, in the order \<^verbatim>\<open>plot\<close> makes them.\<close>

datatype draw =
    Subplots "real \<times> real" int
  | Axvspan real real real real string real
  | Fill_between "real list" real real string "real option"
  | Text real real string text_props
  | Plot "real list" "real list" string string real int
  | Set_xticks "real list"
  | Set_lim "real \<times> real" "real \<times> real"
  | Set_yticks "real list"
  | Spines_set_visible bool

definition np_mean :: "real list \<Rightarrow> real" where
  "np_mean xs = sum_list xs / of_nat (length xs)"

definition linspace :: "real \<Rightarrow> real \<Rightarrow> real list" where
  "linspace a b = map (\<lambda>i. a + of_nat i * ((b - a) / 49)) [0..<50]"

definition weight_of :: "bool \<Rightarrow> string option" where
  "weight_of bold = (if bold then Some ''bold'' else None)"

definition plot_age :: "string \<times> Age \<Rightarrow> draw list" where
  "plot_age = (\<lambda>(name, age).
     [Axvspan (age_start age) (age_end age) (age_y age) 1 (age_color age) (age_top_alpha age),
      Text (np_mean [age_start age, age_end age]) (95 / 100) name
        \<lparr>text_url = age_url age, text_c = None, text_fontsize = Some 12, text_weight = None,
         text_ha = ''center'', text_va = ''center''\<rparr>,
      Axvspan (age_start age) (age_end age) 0 (age_y age) (age_color age)
        (age_bottom_alpha age)])"

definition plot_period :: "string \<times> Period \<Rightarrow> draw list" where
  "plot_period = (\<lambda>(name, period).
     (let x = linspace (period_start period) (period_end period);
          y = period_y period;
          h = period_h period
      in [Fill_between x (y - h) (y + h) ''w'' None,
          Fill_between x (y - h) (y + h) (period_color period) (Some (period_alpha period)),
          Text (np_mean x) y name
            \<lparr>text_url = period_url period, text_c = None,
             text_fontsize = Some (period_fontsize period),
             text_weight = weight_of (period_bold period),
             text_ha = ''center'', text_va = ''center''\<rparr>]))"

definition label_country :: "plot_args \<Rightarrow> real \<Rightarrow> string \<times> Country \<Rightarrow> draw" where
  "label_country a s = (\<lambda>(name, country).
     Text (s - country_offset a) (country_y country) name
       \<lparr>text_url = None, text_c = None, text_fontsize = None, text_weight = None,
        text_ha = ''right'', text_va = ''center''\<rparr>)"

definition plot_fence :: "plot_args \<Rightarrow> real \<Rightarrow> real \<Rightarrow> real \<Rightarrow> draw" where
  "plot_fence a s e y = Plot [s, e] [y, y] (fence_color a) ''--'' (fence_alpha a) 0"

definition plot_event :: "string \<times> Event \<Rightarrow> draw" where
  "plot_event = (\<lambda>(name, event).
     Text (event_year event) (event_y event) name
       \<lparr>text_url = event_url event, text_c = Some (event_color event),
        text_fontsize = Some (event_fontsize event),
        text_weight = weight_of (event_bold event),
        text_ha = ''center'', text_va = ''center''\<rparr>)"

text \<open>
  \<^verbatim>\<open>plot\<close> is a method with effects: it reads the Timeline object, has pyplot create a
  figure, and calls methods of the figure's axes. The world it runs in holds the Timeline
  object and pyplot's registry of figures; a figure is the list of the calls made on it so
  far, and its handle is its position in the registry. A statement takes a world and gives
  the value it returns, or the error it raises, and the world it leaves behind: what was
  drawn before an error stays drawn.
\<close>

record world =
  self :: Timeline
  figures :: "draw list list"

type_synonym 'a stmt = "world \<Rightarrow> (error + 'a) \<times> world"

definition return_stmt :: "'a \<Rightarrow> 'a stmt" where
  "return_stmt v w = (Inr v, w)"

definition bind_stmt :: "'a stmt \<Rightarrow> ('a \<Rightarrow> 'b stmt) \<Rightarrow> 'b stmt" where
  "bind_stmt m f w = (case m w of (Inl e, w') \<Rightarrow> (Inl e, w') | (Inr v, w') \<Rightarrow> f v w')"

fun for_stmt :: "'a list \<Rightarrow> ('a \<Rightarrow> unit stmt) \<Rightarrow> unit stmt" where
  "for_stmt [] body = return_stmt ()"
| "for_stmt (x # xs) body = bind_stmt (body x) (\<lambda>_. for_stmt xs body)"

text \<open>Reading an attribute of \<^verbatim>\<open>self\<close>, and evaluating an expression over \<^verbatim>\<open>self\<close>
  that may raise (the properties \<^verbatim>\<open>self.start\<close> and \<^verbatim>\<open>self.end\<close>).\<close>

definition read_self :: "(Timeline \<Rightarrow> 'a) \<Rightarrow> 'a stmt" where
  "read_self f w = (Inr (f (self w)), w)"

definition eval_self :: "(Timeline \<Rightarrow> error + 'a) \<Rightarrow> 'a stmt" where
  "eval_self f w = (f (self w), w)"

text \<open>\<^verbatim>\<open>plt.subplots\<close> registers a new figure and returns it; a method call on the axes
  of a figure is added to the calls of that figure.\<close>

definition subplots :: "real \<times> real \<Rightarrow> int \<Rightarrow> nat stmt" where
  "subplots fsize res w =
     (Inr (length (figures w)), w\<lparr>figures := figures w @ [[Subplots fsize res]]\<rparr>)"

definition ax_call :: "nat \<Rightarrow> draw \<Rightarrow> unit stmt" where
  "ax_call fig d w = (Inr (), w\<lparr>figures := (figures w)[fig := figures w ! fig @ [d]]\<rparr>)"

definition plot :: "plot_args \<Rightarrow> nat stmt" where
  "plot a =
     bind_stmt (subplots (figsize a) (dpi a)) (\<lambda>fig.
     bind_stmt (read_self ages) (\<lambda>items.
     bind_stmt (for_stmt items (\<lambda>item. for_stmt (plot_age item) (ax_call fig))) (\<lambda>_.
     bind_stmt (read_self periods) (\<lambda>items.
     bind_stmt (for_stmt items (\<lambda>item. for_stmt (plot_period item) (ax_call fig))) (\<lambda>_.
     bind_stmt (read_self countries) (\<lambda>items.
     bind_stmt (for_stmt items (\<lambda>item.
        bind_stmt (eval_self start) (\<lambda>s. ax_call fig (label_country a s item)))) (\<lambda>_.
     bind_stmt
       (if fences a then
          bind_stmt (read_self y_countries_of) (\<lambda>y_countries.
          bind_stmt (eval_self (\<lambda>_. y_fences y_countries)) (\<lambda>ys.
            for_stmt ys (\<lambda>y.
              bind_stmt (eval_self start) (\<lambda>s.
              bind_stmt (eval_self end') (\<lambda>e. ax_call fig (plot_fence a s e y))))))
        else return_stmt ()) (\<lambda>_.
     bind_stmt (read_self events) (\<lambda>items.
     bind_stmt (for_stmt items (\<lambda>item. ax_call fig (plot_event item))) (\<lambda>_.
     bind_stmt (eval_self xticks) (\<lambda>ticks.
     bind_stmt (ax_call fig (Set_xticks ticks)) (\<lambda>_.
     bind_stmt (eval_self start) (\<lambda>s.
     bind_stmt (eval_self end') (\<lambda>e.
     bind_stmt (ax_call fig (Set_lim (0, 1) (s, e))) (\<lambda>_.
     bind_stmt
       (if hide_yaxis a then
          bind_stmt (ax_call fig (Set_yticks [])) (\<lambda>_. ax_call fig (Spines_set_visible False))
        else return_stmt ()) (\<lambda>_.
     return_stmt fig))))))))))))))))"

subsection \<open>Notions used to state the properties\<close>

text \<open>Every time coordinate held by the timeline: the start and end of each age and of
  each period, and the year of each event.\<close>

definition time_coordinates :: "Timeline \<Rightarrow> real set" where
  "time_coordinates t =
     (\<lambda>(name, age). age_start age) ` set (ages t)
     \<union> (\<lambda>(name, age). age_end age) ` set (ages t)
     \<union> (\<lambda>(name, period). period_start period) ` set (periods t)
     \<union> (\<lambda>(name, period). period_end period) ` set (periods t)
     \<union> (\<lambda>(name, event). event_year event) ` set (events t)"

text \<open>The means of neighbouring entries of \<^verbatim>\<open>y_countries\<close>, as \<^const>\<open>y_fences\<close>
  computes them for two or more countries.\<close>

definition interior_fences :: "real list \<Rightarrow> real list" where
  "interior_fences ys = map2 (\<lambda>a b. (a + b) / 2) (tl ys) (butlast ys)"

text \<open>Fence placement in the words of the specification: sort the positions, take the
  mean of each two consecutive sorted positions, and add the top fence.\<close>

definition spec_fences :: "real list \<Rightarrow> real list" where
  "spec_fences ys =
     (let sorted_ys = sort ys;
          interior = map2 (\<lambda>a b. (a + b) / 2) (butlast sorted_ys) (tl sorted_ys)
      in interior @ [2 * Max (set ys) - Max (set interior)])"

text \<open>A client that registers countries one after the other, in the order of the list.\<close>

definition add_countries :: "(string \<times> real \<times> string option) list \<Rightarrow> Timeline \<Rightarrow> Timeline" where
  "add_countries cs t = fold (\<lambda>(name, y, url). add_country name y url) cs t"

text \<open>The multiples of 100.\<close>

definition hundreds :: "real set" where
  "hundreds = range (\<lambda>k::int. 100 * of_int k)"

text \<open>Names are unique within each of the four collections.\<close>

definition unique_names :: "Timeline \<Rightarrow> bool" where
  "unique_names t \<longleftrightarrow>
     distinct (map fst (ages t)) \<and> distinct (map fst (periods t))
     \<and> distinct (map fst (countries t)) \<and> distinct (map fst (events t))"

text \<open>The y data of the fence lines of a chart: only fences are drawn with \<^verbatim>\<open>ax.plot\<close>.\<close>

fun drawn_fences :: "draw list \<Rightarrow> real list list" where
  "drawn_fences [] = []"
| "drawn_fences (Plot xs ys c ls alpha zorder # ds) = ys # drawn_fences ds"
| "drawn_fences (d # ds) = drawn_fences ds"

text \<open>The figure of a run of \<^verbatim>\<open>plot\<close> in which nothing raises, for the derived range
  from \<open>s\<close> to \<open>e\<close> and the fence positions \<open>fs\<close>.\<close>

definition complete_chart :: "plot_args \<Rightarrow> Timeline \<Rightarrow> real \<Rightarrow> real \<Rightarrow> real list \<Rightarrow> draw list" where
  "complete_chart a t s e fs =
     [Subplots (figsize a) (dpi a)]
     @ concat (map plot_age (ages t))
     @ concat (map plot_period (periods t))
     @ map (label_country a s) (countries t)
     @ (if fences a then map (plot_fence a s e) fs else [])
     @ map plot_event (events t)
     @ [Set_xticks (arange (first_tick s) (final_tick e) 100), Set_lim (0, 1) (s, e)]
     @ (if hide_yaxis a then [Set_yticks [], Spines_set_visible False] else [])"

text \<open>The world in which the calls \<open>ds\<close> have been added to figure \<open>fig\<close>.\<close>

definition draw_into :: "nat \<Rightarrow> draw list \<Rightarrow> world \<Rightarrow> world" where
  "draw_into fig ds w = w\<lparr>figures := (figures w)[fig := figures w ! fig @ ds]\<rparr>"

subsection \<open>Example timelines\<close>

definition ascending_countries :: Timeline where
  "ascending_countries =
     add_countries [(''Egypt'', 10, None), (''Greece'', 20, None), (''Rome'', 40, None)]
       Timeline_init"

definition unsorted_countries :: Timeline where
  "unsorted_countries =
     add_countries [(''Rome'', 40, None), (''Egypt'', 10, None), (''Greece'', 20, None)]
       Timeline_init"

definition one_country :: Timeline where
  "one_country = add_country ''Rome'' 25 None Timeline_init"

definition age_and_event :: Timeline where
  "age_and_event =
     add_event ''Battle'' 250 (1 / 2) None None None None
       (add_age ''Iron Age'' 100 200 ''red'' None None None None Timeline_init)"

definition old_and_new_age :: Timeline where
  "old_and_new_age =
     add_age ''Iron Age'' 300 400 ''blue'' None None None None
       (add_age ''Iron Age'' 100 200 ''red'' (Some (8 / 10)) (Some 1) (Some 0) (Some ''http://iron'')
          Timeline_init)"

definition rows_and_years :: Timeline where
  "rows_and_years =
     add_countries [(''Egypt'', 10, None), (''Greece'', 20, None), (''Rome'', 40, None)]
       age_and_event"

text \<open>A timeline with one record under the name Rome in each collection, all styled.\<close>

definition old_records :: Timeline where
  "old_records =
     add_country ''Rome'' 5 (Some ''http://old'')
       (add_event ''Rome'' 1 2 (Some ''g'') (Some 20) (Some False) (Some ''http://old'')
         (add_period ''Rome'' 1 2 3 ''red'' (Some 1) (Some 20) (Some True) (Some 4)
            (Some ''http://old'')
           (add_age ''Rome'' 1 2 ''red'' (Some (8 / 10)) (Some 1) (Some 0) (Some ''http://old'')
              Timeline_init)))"

section \<open>Auxiliary facts\<close>

subsection \<open>Range derivation\<close>

lemma np_min_Min: "xs \<noteq> [] \<Longrightarrow> np_min xs = Inr (Min (set xs))"
  by (cases xs) (simp_all add: Min.set_eq_fold del: set_simps)

lemma np_max_Max: "xs \<noteq> [] \<Longrightarrow> np_max xs = Inr (Max (set xs))"
  by (cases xs) (simp_all add: Max.set_eq_fold del: set_simps)

lemma set_all_years: "set (all_years t) = time_coordinates t"
  unfolding all_years_def time_coordinates_def dict_values_def Let_def
  by (simp add: image_Un image_image case_prod_unfold Un_ac) blast

lemma all_years_Nil: "all_years t = [] \<longleftrightarrow> ages t = [] \<and> periods t = [] \<and> events t = []"
  by (cases "ages t"; cases "periods t"; cases "events t")
     (simp_all add: all_years_def dict_values_def)

lemma all_years_countries: "all_years (t\<lparr>countries := c\<rparr>) = all_years t"
  by (simp add: all_years_def)

lemma start_Min: "all_years t \<noteq> [] \<Longrightarrow> start t = Inr (Min (time_coordinates t))"
  by (simp add: start_def np_min_Min set_all_years)

lemma end_Max: "all_years t \<noteq> [] \<Longrightarrow> end' t = Inr (Max (time_coordinates t))"
  by (simp add: end'_def np_max_Max set_all_years)

lemma all_years_age_and_event: "all_years age_and_event = [100, 200, 250]"
  by (simp add: age_and_event_def add_event_def add_age_def dict_set_def Timeline_init_def
        all_years_def dict_values_def Age_init_def Event_init_def)

lemma start_age_and_event: "start age_and_event = Inr 100"
  by (simp add: start_def all_years_age_and_event)

lemma end_age_and_event: "end' age_and_event = Inr 250"
  by (simp add: end'_def all_years_age_and_event)

subsection \<open>Fence placement\<close>

lemma length_interior_fences: "length (interior_fences ys) = length ys - 1"
  by (simp add: interior_fences_def)

lemma nth_interior_fences:
  "i < length ys - 1 \<Longrightarrow> interior_fences ys ! i = (ys ! i + ys ! Suc i) / 2"
  by (simp add: interior_fences_def nth_tl nth_butlast add.commute)

lemma y_fences_many:
  assumes "length ys > 1"
  shows "y_fences ys
       = Inr (interior_fences ys @ [2 * Max (set ys) - Max (set (interior_fences ys))])"
proof -
  from assms have "ys \<noteq> []"
    by auto
  moreover from assms have "interior_fences ys \<noteq> []"
    using length_interior_fences [of ys] by (metis length_0_conv zero_less_diff less_numeral_extra(3))
  ultimately show ?thesis
    using assms
    by (simp add: y_fences_def bind_result_def np_max_Max interior_fences_def [symmetric] Let_def)
qed

lemma y_fences_few: "length ys \<le> 1 \<Longrightarrow> y_fences ys = Inr (map (\<lambda>y. 2 * y) ys)"
  by (simp add: y_fences_def)

lemma y_fences_total: "\<exists>fs. y_fences ys = Inr fs \<and> length fs = length ys"
proof (cases "length ys > 1")
  case True
  then show ?thesis
    by (simp add: y_fences_many length_interior_fences)
next
  case False
  then show ?thesis
    by (simp add: y_fences_few)
qed

lemma interior_fences_swap:
  "interior_fences ys = map2 (\<lambda>a b. (a + b) / 2) (butlast ys) (tl ys)"
  unfolding interior_fences_def
  by (rule nth_equalityI) (simp_all add: add.commute)

lemma y_fences_sorted:
  assumes "length ys > 1" and "sorted ys"
  shows "y_fences ys = Inr (spec_fences ys)"
  using assms
  by (simp add: y_fences_many spec_fences_def sorted_sort_id Let_def
        interior_fences_swap [symmetric])

lemma update_fresh: "k \<notin> fst ` set al \<Longrightarrow> AList.update k v al = al @ [(k, v)]"
  by (induction al) auto

lemma countries_add_countries:
  "distinct (map fst cs) \<Longrightarrow> fst ` set (countries t) \<inter> fst ` set cs = {} \<Longrightarrow>
   countries (add_countries cs t)
   = countries t @ map (\<lambda>(name, y, url). (name, Country_init y url)) cs"
proof (induction cs arbitrary: t)
  case Nil
  then show ?case
    by (simp add: add_countries_def)
next
  case (Cons c cs)
  obtain name y url where c: "c = (name, y, url)"
    by (cases c)
  let ?t = "add_country name y url t"
  from Cons.prems have "name \<notin> fst ` set (countries t)"
    by (auto simp: c)
  then have upd: "countries ?t = countries t @ [(name, Country_init y url)]"
    by (simp add: add_country_def dict_set_def update_fresh)
  have "countries (add_countries (c # cs) t) = countries (add_countries cs ?t)"
    by (simp add: add_countries_def c)
  also have "\<dots> = countries ?t @ map (\<lambda>(name, y, url). (name, Country_init y url)) cs"
    using Cons.prems by (intro Cons.IH) (auto simp: upd c)
  finally show ?case
    by (simp add: upd c)
qed

lemma y_countries_add_countries:
  "distinct (map fst cs) \<Longrightarrow>
   y_countries_of (add_countries cs Timeline_init) = map (\<lambda>(name, y, url). y) cs"
  using countries_add_countries [of cs Timeline_init]
  by (simp add: y_countries_of_def dict_values_def Timeline_init_def Country_init_def
        case_prod_unfold comp_def)

lemma sorted_mset_unique:
  fixes xs ys :: "real list"
  shows "sorted xs \<Longrightarrow> sorted ys \<Longrightarrow> mset xs = mset ys \<Longrightarrow> xs = ys"
  by (metis properties_for_sort sorted_sort_id)

lemma y_countries_ascending: "y_countries_of ascending_countries = [10, 20, 40]"
  by (simp add: ascending_countries_def y_countries_add_countries)

lemma y_countries_unsorted: "y_countries_of unsorted_countries = [40, 10, 20]"
  by (simp add: unsorted_countries_def y_countries_add_countries)

lemma countries_rows_and_years:
  "countries rows_and_years
   = [(''Egypt'', Country_init 10 None), (''Greece'', Country_init 20 None),
      (''Rome'', Country_init 40 None)]"
proof -
  have "countries age_and_event = []"
    by (simp add: age_and_event_def add_event_def add_age_def Timeline_init_def)
  then show ?thesis
    using countries_add_countries
      [of "[(''Egypt'', 10, None), (''Greece'', 20, None), (''Rome'', 40, None)]" age_and_event]
    by (simp add: rows_and_years_def)
qed

lemma y_countries_rows_and_years: "y_countries_of rows_and_years = [10, 20, 40]"
  by (simp add: y_countries_of_def dict_values_def countries_rows_and_years Country_init_def)

lemma all_years_rows_and_years: "all_years rows_and_years = [100, 200, 250]"
proof -
  have "all_years rows_and_years = all_years age_and_event"
    by (simp add: rows_and_years_def add_countries_def add_country_def all_years_def)
  then show ?thesis
    by (simp add: all_years_age_and_event)
qed

lemma y_fences_10_20_40: "y_fences [10, 20, 40] = Inr [15, 30, 50]"
  by (simp add: y_fences_def bind_result_def)

lemma y_fences_40_10_20: "y_fences [40, 10, 20] = Inr [25, 15, 55]"
  by (simp add: y_fences_def bind_result_def)

subsection \<open>Axis ticks\<close>

lemma first_tick_int: "first_tick s = 100 * of_int (\<lfloor>(s - 1) / 100\<rfloor> + 1)"
  by (simp add: first_tick_def floordiv_def)

lemma final_tick_int: "final_tick e = 100 * of_int (\<lfloor>e / 100\<rfloor> + 1)"
  by (simp add: final_tick_def floordiv_def)

lemma length_arange_int:
  "length (arange (100 * of_int a) (100 * of_int b) 100) = nat (b - a)"
proof -
  have "(100 * of_int b - 100 * of_int a) / (100::real) = of_int (b - a)"
    by simp
  then show ?thesis
    by (simp only: arange_def length_map length_upt ceiling_of_int)
qed

lemma nth_arange:
  "i < length (arange a b step) \<Longrightarrow> arange a b step ! i = a + of_nat i * step"
  by (simp add: arange_def)

lemma set_arange_int:
  "set (arange (100 * of_int a) (100 * of_int b) 100) = (\<lambda>k::int. 100 * of_int k) ` {a..<b}"
proof -
  have "set (arange (100 * of_int a) (100 * of_int b) 100)
      = (\<lambda>i. 100 * of_int a + of_nat i * 100) ` {0..<nat (b - a)}"
    using length_arange_int [of a b] by (simp add: arange_def)
  also have "\<dots> = (\<lambda>k::int. 100 * of_int k) ` {a..<b}"
  proof (intro set_eqI iffI)
    fix x :: real
    assume "x \<in> (\<lambda>i. 100 * of_int a + of_nat i * 100) ` {0..<nat (b - a)}"
    then obtain i where "i < nat (b - a)" and "x = 100 * of_int a + of_nat i * 100"
      by auto
    then have "x = 100 * of_int (a + int i)" and "a + int i \<in> {a..<b}"
      by auto
    then show "x \<in> (\<lambda>k::int. 100 * of_int k) ` {a..<b}"
      by blast
  next
    fix x :: real
    assume "x \<in> (\<lambda>k::int. 100 * of_int k) ` {a..<b}"
    then obtain k where "a \<le> k" and "k < b" and "x = 100 * of_int k"
      by auto
    then have "nat (k - a) \<in> {0..<nat (b - a)}"
      and "x = 100 * of_int a + of_nat (nat (k - a)) * 100"
      by auto
    then show "x \<in> (\<lambda>i. 100 * of_int a + of_nat i * 100) ` {0..<nat (b - a)}"
      by blast
  qed
  finally show ?thesis .
qed

lemma hundred_gt_iff: "s - 1 < 100 * of_int k \<longleftrightarrow> \<lfloor>(s - 1) / 100\<rfloor> + 1 \<le> k" for s :: real
proof -
  have "\<lfloor>(s - 1) / 100\<rfloor> + 1 \<le> k \<longleftrightarrow> \<lfloor>(s - 1) / 100\<rfloor> < k"
    by linarith
  also have "\<dots> \<longleftrightarrow> (s - 1) / 100 < of_int k"
    by (rule floor_less_iff)
  also have "\<dots> \<longleftrightarrow> s - 1 < 100 * of_int k"
    by (simp add: field_simps)
  finally show ?thesis
    by simp
qed

lemma hundred_le_iff: "100 * of_int k \<le> e \<longleftrightarrow> k < \<lfloor>e / 100\<rfloor> + 1" for e :: real
proof -
  have "k < \<lfloor>e / 100\<rfloor> + 1 \<longleftrightarrow> k \<le> \<lfloor>e / 100\<rfloor>"
    by linarith
  also have "\<dots> \<longleftrightarrow> of_int k \<le> e / 100"
    by (rule le_floor_iff)
  also have "\<dots> \<longleftrightarrow> 100 * of_int k \<le> e"
    by (simp add: field_simps)
  finally show ?thesis
    by simp
qed

lemma set_ticks:
  "set (arange (first_tick s) (final_tick e) 100) = {x \<in> hundreds. s - 1 < x \<and> x \<le> e}"
  unfolding first_tick_int final_tick_int set_arange_int hundreds_def
  by (auto simp: hundred_gt_iff hundred_le_iff)

lemma length_ticks:
  "length (arange (first_tick s) (final_tick e) 100) = nat (\<lfloor>e / 100\<rfloor> - \<lfloor>(s - 1) / 100\<rfloor>)"
  unfolding first_tick_int final_tick_int length_arange_int
  by simp

lemma first_tick_least:
  "first_tick s \<in> hundreds \<and> s - 1 < first_tick s
   \<and> (\<forall>x\<in>hundreds. s - 1 < x \<longrightarrow> first_tick s \<le> x)"
proof -
  define K where "K = \<lfloor>(s - 1) / 100\<rfloor> + 1"
  have ft: "first_tick s = 100 * of_int K"
    unfolding K_def by (rule first_tick_int)
  have "K \<le> K"
    by simp
  then have gt: "s - 1 < 100 * of_int K"
    unfolding K_def by (simp only: hundred_gt_iff)
  have least: "100 * of_int K \<le> x" if "x \<in> hundreds" "s - 1 < x" for x
  proof -
    from that(1) obtain k :: int where x: "x = 100 * of_int k"
      by (auto simp: hundreds_def)
    with that(2) have "K \<le> k"
      unfolding K_def by (simp only: hundred_gt_iff)
    then show ?thesis
      by (simp add: x)
  qed
  have "100 * of_int K \<in> hundreds"
    unfolding hundreds_def by (rule rangeI)
  with gt least show ?thesis
    unfolding ft by blast
qed

lemma final_tick_least:
  "final_tick e \<in> hundreds \<and> e < final_tick e
   \<and> (\<forall>x\<in>hundreds. e < x \<longrightarrow> final_tick e \<le> x)"
proof -
  define K where "K = \<lfloor>e / 100\<rfloor> + 1"
  have ft: "final_tick e = 100 * of_int K"
    unfolding K_def by (rule final_tick_int)
  have "\<not> K < K"
    by simp
  with hundred_le_iff [of K e] have "\<not> 100 * of_int K \<le> e"
    unfolding K_def by blast
  then have gt: "e < 100 * of_int K"
    by (rule linorder_class.not_le_imp_less)
  have least: "100 * of_int K \<le> x" if "x \<in> hundreds" "e < x" for x
  proof -
    from that(1) obtain k :: int where x: "x = 100 * of_int k"
      by (auto simp: hundreds_def)
    from that(2) have "\<not> 100 * of_int k \<le> e"
      by (simp add: x)
    with hundred_le_iff [of k e] have "\<not> k < K"
      unfolding K_def by blast
    then show ?thesis
      by (simp add: x)
  qed
  have "100 * of_int K \<in> hundreds"
    unfolding hundreds_def by (rule rangeI)
  with gt least show ?thesis
    unfolding ft by blast
qed

lemma last_tick:
  assumes "arange (first_tick s) (final_tick e) 100 \<noteq> []"
  shows "last (arange (first_tick s) (final_tick e) 100) = final_tick e - 100"
proof -
  let ?ts = "arange (first_tick s) (final_tick e) 100"
  let ?n = "nat (\<lfloor>e / 100\<rfloor> - \<lfloor>(s - 1) / 100\<rfloor>)"
  from assms have pos: "0 < ?n"
    using length_ticks [of s e] by (metis length_greater_0_conv)
  have "last ?ts = ?ts ! (?n - 1)"
    using assms by (simp add: last_conv_nth length_ticks)
  also have "\<dots> = first_tick s + of_nat (?n - 1) * 100"
    using pos by (intro nth_arange) (simp add: length_ticks)
  also have "of_nat (?n - 1) = (of_int (\<lfloor>e / 100\<rfloor> - \<lfloor>(s - 1) / 100\<rfloor> - 1) :: real)"
    using pos by simp
  finally show ?thesis
    by (simp add: first_tick_int final_tick_int)
qed

lemma xticks_age_and_event: "xticks age_and_event = Inr [100, 200]"
  by (simp add: xticks_def start_age_and_event end_age_and_event bind_result_def first_tick_def
        final_tick_def floordiv_def arange_def upt_conv_Cons)

subsection \<open>Insertion\<close>

lemma map_of_update_same: "map_of (AList.update k v al) k = Some v"
  by (simp add: AList.update_conv')

lemma map_of_update_other: "k' \<noteq> k \<Longrightarrow> map_of (AList.update k v al) k' = map_of al k'"
  by (simp add: AList.update_conv')

lemma filter_update_same:
  "distinct (map fst al) \<Longrightarrow> filter (\<lambda>kv. fst kv = k) (AList.update k v al) = [(k, v)]"
proof (induction al)
  case Nil
  then show ?case
    by simp
next
  case (Cons p al)
  show ?case
  proof (cases "fst p = k")
    case True
    with Cons.prems have "\<forall>kv \<in> set al. fst kv \<noteq> k"
      by (force simp: image_iff)
    then have "filter (\<lambda>kv. fst kv = k) al = []"
      by (simp add: filter_empty_conv)
    with True show ?thesis
      by simp
  next
    case False
    with Cons show ?thesis
      by simp
  qed
qed

lemma filter_update_other:
  "filter (\<lambda>kv. fst kv \<noteq> k) (AList.update k v al) = filter (\<lambda>kv. fst kv \<noteq> k) al"
  by (induction al) auto

lemma keys_update_present:
  "k \<in> fst ` set al \<Longrightarrow> map fst (AList.update k v al) = map fst al"
  by (simp add: AList.update_keys)

subsection \<open>Rendering\<close>

lemma drawn_fences_append: "drawn_fences (xs @ ys) = drawn_fences xs @ drawn_fences ys"
  by (induction xs rule: drawn_fences.induct) simp_all

lemma drawn_fences_ages: "drawn_fences (concat (map plot_age d)) = []"
  by (induction d) (simp_all add: drawn_fences_append plot_age_def case_prod_unfold)

lemma drawn_fences_periods: "drawn_fences (concat (map plot_period d)) = []"
  by (induction d) (simp_all add: drawn_fences_append plot_period_def case_prod_unfold Let_def)

lemma drawn_fences_events: "drawn_fences (map plot_event d) = []"
  by (induction d) (simp_all add: plot_event_def case_prod_unfold)

lemma drawn_fences_labels: "drawn_fences (map (label_country a s) d) = []"
  by (induction d) (simp_all add: label_country_def case_prod_unfold)

lemma drawn_fences_lines: "drawn_fences (map (plot_fence a s e) fs) = map (\<lambda>y. [y, y]) fs"
  by (induction fs) (simp_all add: plot_fence_def)

lemma drawn_fences_complete_chart:
  "drawn_fences (complete_chart a t s e fs) = (if fences a then map (\<lambda>y. [y, y]) fs else [])"
  by (simp add: complete_chart_def drawn_fences_append drawn_fences_ages drawn_fences_periods
        drawn_fences_events drawn_fences_labels drawn_fences_lines)

lemma self_draw_into: "self (draw_into fig ds w) = self w"
  by (simp add: draw_into_def)

lemma length_figures_draw_into: "length (figures (draw_into fig ds w)) = length (figures w)"
  by (simp add: draw_into_def)

lemma draw_into_Nil: "draw_into fig [] w = w"
  by (simp add: draw_into_def)

lemma draw_into_twice:
  "fig < length (figures w) \<Longrightarrow>
   draw_into fig ds' (draw_into fig ds w) = draw_into fig (ds @ ds') w"
  by (simp add: draw_into_def)

lemma draw_into_new:
  "draw_into (length (figures w)) ds (w\<lparr>figures := figures w @ [d0]\<rparr>)
   = w\<lparr>figures := figures w @ [d0 @ ds]\<rparr>"
  by (simp add: draw_into_def)

lemma ax_call_draw_into: "ax_call fig d w = (Inr (), draw_into fig [d] w)"
  by (simp add: ax_call_def draw_into_def)

lemma for_stmt_draws:
  assumes "fig < length (figures w)"
    and "\<And>x w'. x \<in> set xs \<Longrightarrow> self w' = self w \<Longrightarrow> fig < length (figures w') \<Longrightarrow>
           body x w' = (Inr (), draw_into fig (g x) w')"
  shows "for_stmt xs body w = (Inr (), draw_into fig (concat (map g xs)) w)"
  using assms
proof (induction xs arbitrary: w)
  case Nil
  then show ?case
    by (simp add: return_stmt_def draw_into_Nil)
next
  case (Cons x xs)
  let ?w = "draw_into fig (g x) w"
  have first: "body x w = (Inr (), ?w)"
    using Cons.prems by simp
  have "for_stmt xs body ?w = (Inr (), draw_into fig (concat (map g xs)) ?w)"
    using Cons.prems by (intro Cons.IH) (simp_all add: self_draw_into length_figures_draw_into)
  with first show ?case
    using Cons.prems(1) by (simp add: bind_stmt_def draw_into_twice)
qed

lemma draw_all:
  "fig < length (figures w) \<Longrightarrow> for_stmt ds (ax_call fig) w = (Inr (), draw_into fig ds w)"
  using for_stmt_draws [of fig w ds "ax_call fig" "\<lambda>d. [d]"]
  by (simp add: ax_call_draw_into)

lemma ages_loop:
  "fig < length (figures w) \<Longrightarrow>
   for_stmt items (\<lambda>item. for_stmt (plot_age item) (ax_call fig)) w
   = (Inr (), draw_into fig (concat (map plot_age items)) w)"
  by (rule for_stmt_draws) (simp_all add: draw_all)

lemma periods_loop:
  "fig < length (figures w) \<Longrightarrow>
   for_stmt items (\<lambda>item. for_stmt (plot_period item) (ax_call fig)) w
   = (Inr (), draw_into fig (concat (map plot_period items)) w)"
  by (rule for_stmt_draws) (simp_all add: draw_all)

lemma countries_loop:
  assumes "fig < length (figures w)" and "start (self w) = Inr s"
  shows "for_stmt items (\<lambda>item.
           bind_stmt (eval_self start) (\<lambda>s. ax_call fig (label_country a s item))) w
       = (Inr (), draw_into fig (map (label_country a s) items) w)"
  using for_stmt_draws [of fig w items _ "\<lambda>item. [label_country a s item]"] assms
  by (simp add: bind_stmt_def eval_self_def ax_call_draw_into)

lemma fences_loop:
  assumes "fig < length (figures w)" and "start (self w) = Inr s" and "end' (self w) = Inr e"
  shows "for_stmt ys (\<lambda>y.
           bind_stmt (eval_self start) (\<lambda>s.
           bind_stmt (eval_self end') (\<lambda>e. ax_call fig (plot_fence a s e y)))) w
       = (Inr (), draw_into fig (map (plot_fence a s e) ys) w)"
  using for_stmt_draws [of fig w ys _ "\<lambda>y. [plot_fence a s e y]"] assms
  by (simp add: bind_stmt_def eval_self_def ax_call_draw_into)

lemma events_loop:
  "fig < length (figures w) \<Longrightarrow>
   for_stmt items (\<lambda>item. ax_call fig (plot_event item)) w
   = (Inr (), draw_into fig (map plot_event items) w)"
  using for_stmt_draws [of fig w items _ "\<lambda>item. [plot_event item]"]
  by (simp add: ax_call_draw_into)

lemma plot_complete:
  assumes s: "start (self w) = Inr s" and e: "end' (self w) = Inr e"
    and fs: "y_fences (y_countries_of (self w)) = Inr fs"
  shows "plot a w
       = (Inr (length (figures w)),
          w\<lparr>figures := figures w @ [complete_chart a (self w) s e fs]\<rparr>)"
proof -
  define fig where "fig = length (figures w)"
  define w1 where "w1 = w\<lparr>figures := figures w @ [[Subplots (figsize a) (dpi a)]]\<rparr>"
  have sub: "subplots (figsize a) (dpi a) w = (Inr fig, w1)"
    by (simp add: subplots_def fig_def w1_def)
  have w1: "self w1 = self w" "fig < length (figures w1)"
    by (simp_all add: w1_def fig_def)
  have ticks: "xticks (self w) = Inr (arange (first_tick s) (final_tick e) 100)"
    by (simp add: xticks_def s e bind_result_def)
  have "plot a w = (Inr fig, draw_into fig (tl (complete_chart a (self w) s e fs)) w1)"
    unfolding plot_def
    by (simp add: bind_stmt_def sub read_self_def eval_self_def return_stmt_def w1 s e fs ticks
          ages_loop periods_loop countries_loop [where s = s] fences_loop [where s = s and e = e]
          events_loop ax_call_draw_into self_draw_into length_figures_draw_into draw_into_twice
          draw_into_Nil complete_chart_def)
  then show ?thesis
    unfolding w1_def fig_def by (simp add: draw_into_new complete_chart_def)
qed

lemma plot_undefined:
  assumes "all_years (self w) = []"
  shows "plot a w
       = (Inl ValueError, w\<lparr>figures := figures w @ [[Subplots (figsize a) (dpi a)]]\<rparr>)"
proof -
  from assms have s: "start (self w) = Inl ValueError"
    by (simp add: start_def)
  from assms have empty: "ages (self w) = []" "periods (self w) = []" "events (self w) = []"
    by (simp_all add: all_years_Nil)
  show ?thesis
  proof (cases "countries (self w)")
    case Nil
    then show ?thesis
      unfolding plot_def
      by (simp add: bind_stmt_def subplots_def read_self_def eval_self_def return_stmt_def
            empty s y_countries_of_def dict_values_def y_fences_def xticks_def bind_result_def)
  next
    case (Cons c cs)
    then show ?thesis
      unfolding plot_def
      by (simp add: bind_stmt_def subplots_def read_self_def eval_self_def return_stmt_def
            empty s)
  qed
qed

section \<open>Properties of the timeline\<close>

text \<open>
  C1. The same three countries registered in two orders get different fences: the
  computation reads the y positions in insertion order and does not sort them.
\<close>

theorem fences_insertion_order_counterexample:
  "mset [(''Egypt'', 10 :: real, None :: string option), (''Greece'', 20, None), (''Rome'', 40, None)]
     = mset [(''Rome'', 40, None), (''Egypt'', 10, None), (''Greece'', 20, None)]
   \<and> y_fences (y_countries_of (add_countries
         [(''Egypt'', 10, None), (''Greece'', 20, None), (''Rome'', 40, None)] Timeline_init))
       = Inr [15, 30, 50]
   \<and> y_fences (y_countries_of (add_countries
         [(''Rome'', 40, None), (''Egypt'', 10, None), (''Greece'', 20, None)] Timeline_init))
       = Inr [25, 15, 55]"
  by (simp add: y_countries_add_countries y_fences_10_20_40 y_fences_40_10_20)

text \<open>
  C1, amended. Countries with distinct names, registered on a new timeline in two orders
  that are both ascending in y, get the same sequence of fences.
\<close>

theorem fences_same_for_ascending_insertions:
  assumes "distinct (map fst cs1)"
    and "mset cs1 = mset cs2"
    and "sorted (map (\<lambda>(name, y, url). y) cs1)"
    and "sorted (map (\<lambda>(name, y, url). y) cs2)"
  shows "y_fences (y_countries_of (add_countries cs1 Timeline_init))
       = y_fences (y_countries_of (add_countries cs2 Timeline_init))"
proof -
  from assms(1,2) have d2: "distinct (map fst cs2)"
    by (metis distinct_map mset_eq_imp_distinct_iff set_mset_mset)
  from assms(2)
  have "mset (map (\<lambda>(name, y, url). y) cs1) = mset (map (\<lambda>(name, y, url). y) cs2)"
    by (metis mset_map)
  with assms(3,4) have "map (\<lambda>(name, y, url). y) cs1 = map (\<lambda>(name, y, url). y) cs2"
    by (rule sorted_mset_unique)
  then show ?thesis
    using assms(1) d2 by (simp add: y_countries_add_countries)
qed

theorem fences_same_for_ascending_insertions_witness:
  "y_fences (y_countries_of (add_countries
       [(''Egypt'', 10, None), (''Greece'', 10, None), (''Rome'', 40, None)] Timeline_init))
   = y_fences (y_countries_of (add_countries
       [(''Greece'', 10, None), (''Egypt'', 10, None), (''Rome'', 40, None)] Timeline_init))"
  by (rule fences_same_for_ascending_insertions) simp_all

text \<open>
  C2. Countries at y = 10, 20, 40, registered in the order 40, 10, 20: the fences are
  25, 15 and 55, not the means 15 and 30 of consecutive sorted positions and 50.
\<close>

theorem fences_sorted_means_counterexample:
  "set (y_countries_of unsorted_countries) = {10, 20, 40}
   \<and> y_fences (y_countries_of unsorted_countries) = Inr [25, 15, 55]
   \<and> spec_fences (y_countries_of unsorted_countries) = [15, 30, 50]"
proof -
  have "sort [40, 10, 20 :: real] = [10, 20, 40]"
    by (simp add: sort_key_def)
  then show ?thesis
    by (simp add: y_countries_unsorted y_fences_40_10_20 spec_fences_def insert_commute)
qed

text \<open>
  C2, amended. With n \<ge> 2 countries the computation yields n fences: n - 1 interior fences,
  the i-th at the mean of the i-th and (i+1)-th y position in insertion order, and a last
  one at 2 * max(y) - max(interior fences). When the y positions are ascending in insertion
  order these are the fences of the specification; countries registered at 10, 20, 40 in
  this order get 15, 30, 50.
\<close>

theorem fences_of_two_or_more:
  assumes "length (countries t) \<ge> 2"
  shows "\<exists>fs. y_fences (y_countries_of t) = Inr fs
          \<and> length fs = length (countries t)
          \<and> (\<forall>i < length (countries t) - 1.
                fs ! i = (y_countries_of t ! i + y_countries_of t ! Suc i) / 2)
          \<and> last fs = 2 * Max (set (y_countries_of t)) - Max (set (butlast fs))
          \<and> (sorted (y_countries_of t) \<longrightarrow> fs = spec_fences (y_countries_of t))"
proof -
  let ?ys = "y_countries_of t"
  let ?fs = "interior_fences ?ys @ [2 * Max (set ?ys) - Max (set (interior_fences ?ys))]"
  have n: "length ?ys = length (countries t)"
    by (simp add: y_countries_of_def dict_values_def)
  with assms have many: "length ?ys > 1"
    by simp
  then have "y_fences ?ys = Inr ?fs"
    by (rule y_fences_many)
  moreover have "length ?fs = length (countries t)"
    using many n by (simp add: length_interior_fences)
  moreover have "\<forall>i < length (countries t) - 1. ?fs ! i = (?ys ! i + ?ys ! Suc i) / 2"
    using n by (simp add: nth_append length_interior_fences nth_interior_fences)
  moreover have "last ?fs = 2 * Max (set ?ys) - Max (set (butlast ?fs))"
    by simp
  moreover have "sorted ?ys \<longrightarrow> ?fs = spec_fences ?ys"
    using y_fences_sorted [OF many] \<open>y_fences ?ys = Inr ?fs\<close> by auto
  ultimately show ?thesis
    by blast
qed

theorem fences_of_two_or_more_witness:
  "length (countries ascending_countries) \<ge> 2
   \<and> sorted (y_countries_of ascending_countries)
   \<and> y_fences (y_countries_of ascending_countries) = Inr [15, 30, 50]
   \<and> spec_fences (y_countries_of ascending_countries) = [15, 30, 50]"
proof -
  have l: "length (countries ascending_countries) \<ge> 2"
    by (simp add: ascending_countries_def countries_add_countries Timeline_init_def)
  have s: "sorted (y_countries_of ascending_countries)"
    by (simp add: y_countries_ascending)
  from fences_of_two_or_more [OF l] s l show ?thesis
    by (auto simp: y_countries_ascending y_fences_10_20_40)
qed

text \<open>
  C3. On a timeline without ages, periods and events, the error of \<open>start\<close> (and of
  \<open>end\<close>) is the \<open>ValueError\<close> that numpy raises for the minimum of an empty array, not
  the \<open>EmptyTimelineError\<close> of the specification.
\<close>

theorem empty_timeline_error_counterexample:
  "ages Timeline_init = [] \<and> periods Timeline_init = [] \<and> events Timeline_init = []
   \<and> start Timeline_init \<noteq> Inl EmptyTimelineError
   \<and> end' Timeline_init \<noteq> Inl EmptyTimelineError"
  by (simp add: Timeline_init_def start_def end'_def all_years_def dict_values_def)

text \<open>
  C3, amended. On a timeline without ages, periods and events, \<open>start\<close> and \<open>end\<close> fail:
  each raises the \<open>ValueError\<close> of \<^verbatim>\<open>np.min\<close> / \<^verbatim>\<open>np.max\<close> on an empty array, no
  number is returned, and \<open>plot\<close> is aborted by the same error.
\<close>

theorem empty_timeline_raises_ValueError:
  assumes "ages t = []" and "periods t = []" and "events t = []"
  shows "start t = Inl ValueError \<and> end' t = Inl ValueError
       \<and> fst (plot a \<lparr>self = t, figures = figs\<rparr>) = Inl ValueError"
proof -
  from assms have "all_years t = []"
    by (simp add: all_years_Nil)
  then show ?thesis
    by (simp add: start_def end'_def plot_undefined)
qed

theorem empty_timeline_raises_ValueError_witness:
  "ages one_country = [] \<and> periods one_country = [] \<and> events one_country = []
   \<and> countries one_country \<noteq> []
   \<and> start one_country = Inl ValueError \<and> end' one_country = Inl ValueError
   \<and> fst (plot plot_defaults \<lparr>self = one_country, figures = []\<rparr>) = Inl ValueError"
proof -
  have e: "ages one_country = []" "periods one_country = []" "events one_country = []"
    and c: "countries one_country \<noteq> []"
    by (simp_all add: one_country_def add_country_def Timeline_init_def dict_set_def)
  from empty_timeline_raises_ValueError [OF e, of plot_defaults "[]"] e c show ?thesis
    by simp
qed

text \<open>
  C4. When the timeline holds at least one age, period or event, \<open>start\<close> returns the
  minimum and \<open>end\<close> the maximum of all time coordinates (the start and end of every age
  and period, the year of every event), the start is at most the end, and replacing the
  countries changes neither.
\<close>

theorem derived_range_is_min_max:
  assumes "ages t \<noteq> [] \<or> periods t \<noteq> [] \<or> events t \<noteq> []"
  shows "start t = Inr (Min (time_coordinates t))
       \<and> end' t = Inr (Max (time_coordinates t))
       \<and> Min (time_coordinates t) \<le> Max (time_coordinates t)
       \<and> start (t\<lparr>countries := c\<rparr>) = start t
       \<and> end' (t\<lparr>countries := c\<rparr>) = end' t"
proof -
  from assms have ne: "all_years t \<noteq> []"
    by (simp add: all_years_Nil)
  then have "set (all_years t) \<noteq> {}"
    by simp
  then have "finite (time_coordinates t)" and "time_coordinates t \<noteq> {}"
    using set_all_years [of t] by (metis List.finite_set, metis)
  then have "Min (time_coordinates t) \<le> Max (time_coordinates t)"
    by simp
  moreover have "start (t\<lparr>countries := c\<rparr>) = start t" and "end' (t\<lparr>countries := c\<rparr>) = end' t"
    by (simp_all add: start_def end'_def all_years_countries)
  ultimately show ?thesis
    using ne by (simp add: start_Min end_Max)
qed

theorem derived_range_is_min_max_witness:
  "start age_and_event = Inr (Min (time_coordinates age_and_event))
   \<and> end' age_and_event = Inr (Max (time_coordinates age_and_event))
   \<and> Min (time_coordinates age_and_event) = 100
   \<and> Max (time_coordinates age_and_event) = 250
   \<and> start (age_and_event\<lparr>countries := [(''Rome'', Country_init 7 None)]\<rparr>) = Inr 100
   \<and> end' (age_and_event\<lparr>countries := [(''Rome'', Country_init 7 None)]\<rparr>) = Inr 250"
proof -
  have "ages age_and_event \<noteq> [] \<or> periods age_and_event \<noteq> [] \<or> events age_and_event \<noteq> []"
    by (simp add: age_and_event_def add_event_def add_age_def dict_set_def)
  from derived_range_is_min_max [OF this, of "[(''Rome'', Country_init 7 None)]"]
  show ?thesis
    by (simp add: start_age_and_event end_age_and_event)
qed

text \<open>
  C5. The computation yields as many fences as there are countries: n for n \<ge> 2 (of which
  n - 1 are interior fences), one for one country, none for no country. When the timeline
  holds an age, a period or an event and fences are enabled, \<open>plot\<close> returns a new figure
  with that many fence lines; with no country it returns a figure without fence lines.
\<close>

theorem fence_count:
  "\<exists>fs. y_fences (y_countries_of t) = Inr fs
     \<and> length fs = length (countries t)
     \<and> length (interior_fences (y_countries_of t)) = length (countries t) - 1
     \<and> ((ages t \<noteq> [] \<or> periods t \<noteq> [] \<or> events t \<noteq> []) \<and> fences a \<longrightarrow>
          (\<exists>ds. plot a \<lparr>self = t, figures = figs\<rparr>
                  = (Inr (length figs), \<lparr>self = t, figures = figs @ [ds]\<rparr>)
             \<and> drawn_fences ds = map (\<lambda>y. [y, y]) fs
             \<and> length (drawn_fences ds) = length (countries t)))"
proof -
  let ?ys = "y_countries_of t"
  have n: "length ?ys = length (countries t)"
    by (simp add: y_countries_of_def dict_values_def)
  obtain fs where fs: "y_fences ?ys = Inr fs" and len: "length fs = length (countries t)"
    using y_fences_total [of ?ys] n by auto
  have "\<exists>ds. plot a \<lparr>self = t, figures = figs\<rparr>
                = (Inr (length figs), \<lparr>self = t, figures = figs @ [ds]\<rparr>)
          \<and> drawn_fences ds = map (\<lambda>y. [y, y]) fs
          \<and> length (drawn_fences ds) = length (countries t)"
    if "ages t \<noteq> [] \<or> periods t \<noteq> [] \<or> events t \<noteq> []" and "fences a"
  proof -
    from that(1) have ne: "all_years t \<noteq> []"
      by (simp add: all_years_Nil)
    from plot_complete [of "\<lparr>self = t, figures = figs\<rparr>", OF _ _ _, of _ _ fs a]
      start_Min [OF ne] end_Max [OF ne] fs that(2) len
    show ?thesis
      by (simp add: drawn_fences_complete_chart)
  qed
  with fs len show ?thesis
    using n by (auto simp: length_interior_fences)
qed

theorem fence_count_witness:
  "events age_and_event \<noteq> [] \<and> events rows_and_years \<noteq> []
   \<and> fences plot_defaults
   \<and> length (countries age_and_event) = 0
   \<and> (\<exists>ds. plot plot_defaults \<lparr>self = age_and_event, figures = []\<rparr>
             = (Inr 0, \<lparr>self = age_and_event, figures = [ds]\<rparr>)
         \<and> drawn_fences ds = [])
   \<and> length (countries rows_and_years) = 3
   \<and> (\<exists>ds. plot plot_defaults \<lparr>self = rows_and_years, figures = []\<rparr>
             = (Inr 0, \<lparr>self = rows_and_years, figures = [ds]\<rparr>)
         \<and> drawn_fences ds = [[15, 15], [30, 30], [50, 50]])"
proof -
  have a: "ages age_and_event \<noteq> [] \<or> periods age_and_event \<noteq> [] \<or> events age_and_event \<noteq> []"
    and c: "countries age_and_event = []"
    by (simp_all add: age_and_event_def add_event_def add_age_def dict_set_def Timeline_init_def)
  have f: "fences plot_defaults"
    by (simp add: plot_defaults_def)
  have a': "ages rows_and_years \<noteq> [] \<or> periods rows_and_years \<noteq> []
      \<or> events rows_and_years \<noteq> []"
    using a by (simp add: rows_and_years_def add_countries_def add_country_def)
  from fence_count [of age_and_event plot_defaults "[]"] a f c
  have 1: "\<exists>ds. plot plot_defaults \<lparr>self = age_and_event, figures = []\<rparr>
             = (Inr 0, \<lparr>self = age_and_event, figures = [ds]\<rparr>)
         \<and> drawn_fences ds = []"
    by auto
  from fence_count [of rows_and_years plot_defaults "[]"] a' f
  have 2: "\<exists>ds. plot plot_defaults \<lparr>self = rows_and_years, figures = []\<rparr>
             = (Inr 0, \<lparr>self = rows_and_years, figures = [ds]\<rparr>)
         \<and> drawn_fences ds = [[15, 15], [30, 30], [50, 50]]"
    by (auto simp: y_countries_rows_and_years y_fences_10_20_40)
  have "events age_and_event \<noteq> []" and "events rows_and_years \<noteq> []"
    by (simp_all add: rows_and_years_def add_countries_def add_country_def age_and_event_def
          add_event_def add_age_def dict_set_def Timeline_init_def)
  with f c countries_rows_and_years 1 2 show ?thesis
    by simp
qed

text \<open>
  C6. With exactly one country, at y, the computation yields the single fence 2 * y; a
  country at 25 gets the fence 50.
\<close>

theorem fence_of_one_country:
  assumes "countries t = [(name, country)]"
  shows "y_fences (y_countries_of t) = Inr [2 * country_y country]"
  using assms by (simp add: y_countries_of_def dict_values_def y_fences_def)

theorem fence_of_one_country_witness:
  "countries one_country = [(''Rome'', Country_init 25 None)]
   \<and> y_fences (y_countries_of one_country) = Inr [50]"
proof -
  have c: "countries one_country = [(''Rome'', Country_init 25 None)]"
    by (simp add: one_country_def add_country_def Timeline_init_def dict_set_def)
  from fence_of_one_country [OF c] c show ?thesis
    by (simp add: Country_init_def)
qed

text \<open>
  C7. With the age from 100 to 200 and the event at 250, the derived range is 100 to 250
  and the ticks are 100 and 200: the first tick is 100, not 200, and the last tick is 200,
  not the smallest multiple of 100 above 250.
\<close>

theorem xticks_example_counterexample:
  "start age_and_event = Inr 100 \<and> end' age_and_event = Inr 250
   \<and> xticks age_and_event = Inr [100, 200]
   \<and> hd [100, 200 :: real] \<noteq> 200 \<and> last [100, 200 :: real] \<noteq> 300"
  by (simp add: start_age_and_event end_age_and_event xticks_age_and_event)

text \<open>
  C7, amended. With derived range from s to e, the ticks are
  \<^verbatim>\<open>np.arange(first_tick, final_tick, 100)\<close>, 100 apart, where \<open>first_tick\<close> is the
  smallest multiple of 100 above s - 1 and \<open>final_tick\<close> the smallest multiple of 100 above
  e. As \<open>final_tick\<close> is excluded, the ticks are the multiples of 100 that are above s - 1
  and at most e: if there is any, the first is \<open>first_tick\<close> and the last is
  \<open>final_tick - 100\<close>.
\<close>

theorem xticks_are_hundreds_in_range:
  assumes "start t = Inr s" and "end' t = Inr e"
  shows "\<exists>ts. xticks t = Inr ts
          \<and> ts = arange (first_tick s) (final_tick e) 100
          \<and> first_tick s \<in> hundreds \<and> s - 1 < first_tick s
          \<and> (\<forall>x\<in>hundreds. s - 1 < x \<longrightarrow> first_tick s \<le> x)
          \<and> final_tick e \<in> hundreds \<and> e < final_tick e
          \<and> (\<forall>x\<in>hundreds. e < x \<longrightarrow> final_tick e \<le> x)
          \<and> (\<forall>i < length ts. ts ! i = first_tick s + of_nat i * 100)
          \<and> set ts = {x \<in> hundreds. s - 1 < x \<and> x \<le> e}
          \<and> (ts \<noteq> [] \<longrightarrow> hd ts = first_tick s \<and> last ts = final_tick e - 100)"
proof -
  let ?ts = "arange (first_tick s) (final_tick e) 100"
  have "xticks t = Inr ?ts"
    using assms by (simp add: xticks_def bind_result_def)
  moreover have "\<forall>i < length ?ts. ?ts ! i = first_tick s + of_nat i * 100"
    by (simp add: nth_arange)
  moreover have "?ts \<noteq> [] \<longrightarrow> hd ?ts = first_tick s"
    using nth_arange [of 0 "first_tick s" "final_tick e" 100] by (simp add: hd_conv_nth)
  moreover have "?ts \<noteq> [] \<longrightarrow> last ?ts = final_tick e - 100"
    using last_tick [of s e] by blast
  ultimately show ?thesis
    using first_tick_least [of s] final_tick_least [of e] set_ticks [of s e] by blast
qed

theorem xticks_are_hundreds_in_range_witness:
  "start age_and_event = Inr 100 \<and> end' age_and_event = Inr 250
   \<and> xticks age_and_event = Inr (arange (first_tick 100) (final_tick 250) 100)
   \<and> first_tick 100 = 100 \<and> final_tick 250 = 300
   \<and> set (arange (first_tick 100) (final_tick 250) 100) = {100, 200}
   \<and> last (arange (first_tick 100) (final_tick 250) 100) = final_tick 250 - 100"
proof -
  have ar: "arange 100 300 100 = [100, 200]"
    by (simp add: arange_def upt_conv_Cons)
  have ft: "first_tick 100 = 100" "final_tick 250 = 300"
    by (simp_all add: first_tick_def final_tick_def floordiv_def)
  from xticks_are_hundreds_in_range [OF start_age_and_event end_age_and_event]
  show ?thesis
    by (auto simp: start_age_and_event end_age_and_event ft ar)
qed

text \<open>
  C8. While names are unique within each collection, each of the four insertion methods
  keeps them unique and leaves, under the name it was given, exactly one record, whatever
  was stored under the name before: each field of this record is the argument of this call
  for the field, or the default of the field when the argument was left out. When the name
  was present, the names of the collection and their order stay as they were.
\<close>

theorem insertion_replaces_record:
  assumes "unique_names t"
  shows "unique_names (add_age name s e color y top_alpha bottom_alpha url t)
       \<and> unique_names (add_period name s e py color alpha fontsize bold h url t)
       \<and> unique_names (add_event name year py ecolor fontsize bold url t)
       \<and> unique_names (add_country name py url t)
       \<and> dict_get (ages (add_age name s e color y top_alpha bottom_alpha url t)) name
           = Some \<lparr>age_start = s, age_end = e, age_color = color,
              age_y = (case y of None \<Rightarrow> 9 / 10 | Some v \<Rightarrow> v),
              age_top_alpha = (case top_alpha of None \<Rightarrow> 1 / 2 | Some v \<Rightarrow> v),
              age_bottom_alpha = (case bottom_alpha of None \<Rightarrow> 1 / 10 | Some v \<Rightarrow> v),
              age_url = url\<rparr>
       \<and> filter (\<lambda>kv. fst kv = name) (ages (add_age name s e color y top_alpha bottom_alpha url t))
           = [(name,
             \<lparr>age_start = s, age_end = e, age_color = color,
              age_y = (case y of None \<Rightarrow> 9 / 10 | Some v \<Rightarrow> v),
              age_top_alpha = (case top_alpha of None \<Rightarrow> 1 / 2 | Some v \<Rightarrow> v),
              age_bottom_alpha = (case bottom_alpha of None \<Rightarrow> 1 / 10 | Some v \<Rightarrow> v),
              age_url = url\<rparr>)]
       \<and> dict_get (periods (add_period name s e py color alpha fontsize bold h url t)) name
           = Some \<lparr>period_start = s, period_end = e, period_y = py, period_color = color,
              period_alpha = (case alpha of None \<Rightarrow> 4 / 10 | Some v \<Rightarrow> v),
              period_fontsize = (case fontsize of None \<Rightarrow> 10 | Some v \<Rightarrow> v),
              period_bold = (case bold of None \<Rightarrow> False | Some v \<Rightarrow> v),
              period_h = (case h of None \<Rightarrow> 25 / 1000 | Some v \<Rightarrow> v),
              period_url = url\<rparr>
       \<and> filter (\<lambda>kv. fst kv = name) (periods (add_period name s e py color alpha fontsize bold h url t))
           = [(name,
             \<lparr>period_start = s, period_end = e, period_y = py, period_color = color,
              period_alpha = (case alpha of None \<Rightarrow> 4 / 10 | Some v \<Rightarrow> v),
              period_fontsize = (case fontsize of None \<Rightarrow> 10 | Some v \<Rightarrow> v),
              period_bold = (case bold of None \<Rightarrow> False | Some v \<Rightarrow> v),
              period_h = (case h of None \<Rightarrow> 25 / 1000 | Some v \<Rightarrow> v),
              period_url = url\<rparr>)]
       \<and> dict_get (events (add_event name year py ecolor fontsize bold url t)) name
           = Some \<lparr>event_year = year, event_y = py,
              event_color = (case ecolor of None \<Rightarrow> ''k'' | Some v \<Rightarrow> v),
              event_fontsize = (case fontsize of None \<Rightarrow> 8 | Some v \<Rightarrow> v),
              event_bold = (case bold of None \<Rightarrow> True | Some v \<Rightarrow> v),
              event_url = url\<rparr>
       \<and> filter (\<lambda>kv. fst kv = name) (events (add_event name year py ecolor fontsize bold url t))
           = [(name,
             \<lparr>event_year = year, event_y = py,
              event_color = (case ecolor of None \<Rightarrow> ''k'' | Some v \<Rightarrow> v),
              event_fontsize = (case fontsize of None \<Rightarrow> 8 | Some v \<Rightarrow> v),
              event_bold = (case bold of None \<Rightarrow> True | Some v \<Rightarrow> v),
              event_url = url\<rparr>)]
       \<and> dict_get (countries (add_country name py url t)) name
           = Some \<lparr>country_y = py, country_url = url\<rparr>
       \<and> filter (\<lambda>kv. fst kv = name) (countries (add_country name py url t))
           = [(name,
             \<lparr>country_y = py, country_url = url\<rparr>)]
       \<and> (name \<in> fst ` set (ages t) \<longrightarrow>
            map fst (ages (add_age name s e color y top_alpha bottom_alpha url t)) = map fst (ages t))
       \<and> (name \<in> fst ` set (periods t) \<longrightarrow>
            map fst (periods (add_period name s e py color alpha fontsize bold h url t)) = map fst (periods t))
       \<and> (name \<in> fst ` set (events t) \<longrightarrow>
            map fst (events (add_event name year py ecolor fontsize bold url t)) = map fst (events t))
       \<and> (name \<in> fst ` set (countries t) \<longrightarrow>
            map fst (countries (add_country name py url t)) = map fst (countries t))"
proof -
  from assms have d: "distinct (map fst (ages t))" "distinct (map fst (periods t))"
    "distinct (map fst (events t))" "distinct (map fst (countries t))"
    by (simp_all add: unique_names_def)
  have age: "Age_init s e color y top_alpha bottom_alpha url
      = \<lparr>age_start = s, age_end = e, age_color = color,
          age_y = (case y of None \<Rightarrow> 9 / 10 | Some v \<Rightarrow> v),
          age_top_alpha = (case top_alpha of None \<Rightarrow> 1 / 2 | Some v \<Rightarrow> v),
          age_bottom_alpha = (case bottom_alpha of None \<Rightarrow> 1 / 10 | Some v \<Rightarrow> v),
          age_url = url\<rparr>"
    by (simp add: Age_init_def default_arg_def split: option.splits)
  have period: "Period_init s e py color alpha fontsize bold h url
      = \<lparr>period_start = s, period_end = e, period_y = py, period_color = color,
          period_alpha = (case alpha of None \<Rightarrow> 4 / 10 | Some v \<Rightarrow> v),
          period_fontsize = (case fontsize of None \<Rightarrow> 10 | Some v \<Rightarrow> v),
          period_bold = (case bold of None \<Rightarrow> False | Some v \<Rightarrow> v),
          period_h = (case h of None \<Rightarrow> 25 / 1000 | Some v \<Rightarrow> v),
          period_url = url\<rparr>"
    by (simp add: Period_init_def default_arg_def split: option.splits)
  have event: "Event_init year py ecolor fontsize bold url
      = \<lparr>event_year = year, event_y = py,
          event_color = (case ecolor of None \<Rightarrow> ''k'' | Some v \<Rightarrow> v),
          event_fontsize = (case fontsize of None \<Rightarrow> 8 | Some v \<Rightarrow> v),
          event_bold = (case bold of None \<Rightarrow> True | Some v \<Rightarrow> v),
          event_url = url\<rparr>"
    by (simp add: Event_init_def default_arg_def split: option.splits)
  have country: "Country_init py url = \<lparr>country_y = py, country_url = url\<rparr>"
    by (simp add: Country_init_def)
  have unique: "unique_names (add_age name s e color y top_alpha bottom_alpha url t)"
    "unique_names (add_period name s e py color alpha fontsize bold h url t)"
    "unique_names (add_event name year py ecolor fontsize bold url t)"
    "unique_names (add_country name py url t)"
    using d
    by (simp_all add: unique_names_def add_age_def add_period_def add_event_def add_country_def
          dict_set_def AList.distinct_update)
  have stored:
    "dict_get (ages (add_age name s e color y top_alpha bottom_alpha url t)) name
       = Some (Age_init s e color y top_alpha bottom_alpha url)"
    "dict_get (periods (add_period name s e py color alpha fontsize bold h url t)) name
       = Some (Period_init s e py color alpha fontsize bold h url)"
    "dict_get (events (add_event name year py ecolor fontsize bold url t)) name
       = Some (Event_init year py ecolor fontsize bold url)"
    "dict_get (countries (add_country name py url t)) name = Some (Country_init py url)"
    by (simp_all add: add_age_def add_period_def add_event_def add_country_def dict_set_def
          dict_get_def map_of_update_same)
  have only:
    "filter (\<lambda>kv. fst kv = name) (ages (add_age name s e color y top_alpha bottom_alpha url t))
       = [(name, Age_init s e color y top_alpha bottom_alpha url)]"
    "filter (\<lambda>kv. fst kv = name) (periods (add_period name s e py color alpha fontsize bold h url t))
       = [(name, Period_init s e py color alpha fontsize bold h url)]"
    "filter (\<lambda>kv. fst kv = name) (events (add_event name year py ecolor fontsize bold url t))
       = [(name, Event_init year py ecolor fontsize bold url)]"
    "filter (\<lambda>kv. fst kv = name) (countries (add_country name py url t))
       = [(name, Country_init py url)]"
    using d
    by (simp_all add: add_age_def add_period_def add_event_def add_country_def dict_set_def
          filter_update_same)
  have names:
    "name \<in> fst ` set (ages t) \<longrightarrow>
       map fst (ages (add_age name s e color y top_alpha bottom_alpha url t)) = map fst (ages t)"
    "name \<in> fst ` set (periods t) \<longrightarrow>
       map fst (periods (add_period name s e py color alpha fontsize bold h url t)) = map fst (periods t)"
    "name \<in> fst ` set (events t) \<longrightarrow>
       map fst (events (add_event name year py ecolor fontsize bold url t)) = map fst (events t)"
    "name \<in> fst ` set (countries t) \<longrightarrow>
       map fst (countries (add_country name py url t)) = map fst (countries t)"
    by (simp_all add: add_age_def add_period_def add_event_def add_country_def dict_set_def
          keys_update_present)
  show ?thesis
    using unique stored only names
    unfolding age period event country
    by (intro conjI) assumption+
qed

theorem insertion_replaces_record_witness:
  "unique_names old_records
   \<and> ''Rome'' \<in> fst ` set (ages old_records) \<and> ''Rome'' \<in> fst ` set (periods old_records)
   \<and> ''Rome'' \<in> fst ` set (events old_records) \<and> ''Rome'' \<in> fst ` set (countries old_records)
   \<and> ages (add_age ''Rome'' 300 400 ''blue'' None (Some (3 / 10)) None None old_records)
       = [(''Rome'',
           \<lparr>age_start = 300, age_end = 400, age_color = ''blue'', age_y = 9 / 10,
            age_top_alpha = 3 / 10, age_bottom_alpha = 1 / 10, age_url = None\<rparr>)]
   \<and> periods (add_period ''Rome'' 300 400 (7 / 10) ''blue'' None (Some 14) None None None
        old_records)
       = [(''Rome'',
           \<lparr>period_start = 300, period_end = 400, period_y = 7 / 10, period_color = ''blue'',
            period_alpha = 4 / 10, period_fontsize = 14, period_bold = False,
            period_h = 25 / 1000, period_url = None\<rparr>)]
   \<and> events (add_event ''Rome'' 350 (7 / 10) None (Some 14) None None old_records)
       = [(''Rome'',
           \<lparr>event_year = 350, event_y = 7 / 10, event_color = ''k'', event_fontsize = 14,
            event_bold = True, event_url = None\<rparr>)]
   \<and> countries (add_country ''Rome'' (7 / 10) None old_records)
       = [(''Rome'', \<lparr>country_y = 7 / 10, country_url = None\<rparr>)]"
proof -
  have u: "unique_names old_records"
    by (simp add: unique_names_def old_records_def add_age_def add_period_def add_event_def
          add_country_def dict_set_def Timeline_init_def)
  have keys: "map fst (ages old_records) = [''Rome'']" "map fst (periods old_records) = [''Rome'']"
    "map fst (events old_records) = [''Rome'']" "map fst (countries old_records) = [''Rome'']"
    by (simp_all add: old_records_def add_age_def add_period_def add_event_def
          add_country_def dict_set_def Timeline_init_def)
  have single: "xs = filter (\<lambda>kv. fst kv = k) xs" if "map fst xs = [k]"
    for xs :: "(string \<times> 'v) list" and k
    using that by (cases xs) auto
  from keys have p: "''Rome'' \<in> fst ` set (ages old_records)"
    "''Rome'' \<in> fst ` set (periods old_records)"
    "''Rome'' \<in> fst ` set (events old_records)"
    "''Rome'' \<in> fst ` set (countries old_records)"
    by (metis list.set_intros(1) set_map)+
  note r = insertion_replaces_record [OF u, of "''Rome''" 300 400 "''blue''" None "Some (3 / 10)"
      None None "7 / 10" None "Some 14" None None 350 None]
  from r p keys
  have k: "map fst (ages (add_age ''Rome'' 300 400 ''blue'' None (Some (3 / 10)) None None
        old_records)) = [''Rome'']"
    "map fst (periods (add_period ''Rome'' 300 400 (7 / 10) ''blue'' None (Some 14) None None
        None old_records)) = [''Rome'']"
    "map fst (events (add_event ''Rome'' 350 (7 / 10) None (Some 14) None None old_records))
       = [''Rome'']"
    "map fst (countries (add_country ''Rome'' (7 / 10) None old_records)) = [''Rome'']"
    by simp_all
  from r single [OF k(1)] single [OF k(2)] single [OF k(3)] single [OF k(4)] u p
  show ?thesis
    by simp
qed

text \<open>
  C9. Two runs of \<open>plot\<close>, the second in the world the first leaves behind, with the same
  arguments: both leave the Timeline object, and so its four collections, as it was; each
  adds one figure to the registry, and the two figures hold the same calls; both raise
  \<open>ValueError\<close>, or both return their new figure. When the derived range is from s to e,
  both figures have the x limits s and e, the ticks computed from s and e, and (if fences
  are enabled) the fence lines at the positions computed from the countries.
\<close>

theorem plot_twice:
  "\<exists>r1 r2 ds1 ds2.
      plot a \<lparr>self = t, figures = figs\<rparr> = (r1, \<lparr>self = t, figures = figs @ [ds1]\<rparr>)
    \<and> plot a \<lparr>self = t, figures = figs @ [ds1]\<rparr>
        = (r2, \<lparr>self = t, figures = figs @ [ds1, ds2]\<rparr>)
    \<and> ds2 = ds1
    \<and> (r1 = Inl ValueError \<and> r2 = Inl ValueError
        \<or> r1 = Inr (length figs) \<and> r2 = Inr (Suc (length figs)))
    \<and> (\<forall>s e fs. start t = Inr s \<and> end' t = Inr e \<and> y_fences (y_countries_of t) = Inr fs \<longrightarrow>
          r1 = Inr (length figs)
          \<and> Set_lim (0, 1) (s, e) \<in> set ds1
          \<and> Set_xticks (arange (first_tick s) (final_tick e) 100) \<in> set ds1
          \<and> drawn_fences ds1 = (if fences a then map (\<lambda>y. [y, y]) fs else []))"
proof (cases "all_years t = []")
  case True
  let ?ds = "[Subplots (figsize a) (dpi a)]"
  have 1: "plot a \<lparr>self = t, figures = figs\<rparr>
      = (Inl ValueError, \<lparr>self = t, figures = figs @ [?ds]\<rparr>)"
    using True by (simp add: plot_undefined)
  have 2: "plot a \<lparr>self = t, figures = figs @ [?ds]\<rparr>
      = (Inl ValueError, \<lparr>self = t, figures = figs @ [?ds, ?ds]\<rparr>)"
    using True by (simp add: plot_undefined)
  have "start t = Inl ValueError"
    using True by (simp add: start_def)
  with 1 2 show ?thesis
    by auto
next
  case False
  obtain fs where fs: "y_fences (y_countries_of t) = Inr fs"
    using y_fences_total by blast
  obtain s e where s: "start t = Inr s" and e: "end' t = Inr e"
    using start_Min [OF False] end_Max [OF False] by blast
  let ?ds = "complete_chart a t s e fs"
  have 1: "plot a \<lparr>self = t, figures = figs\<rparr>
      = (Inr (length figs), \<lparr>self = t, figures = figs @ [?ds]\<rparr>)"
    using plot_complete [of "\<lparr>self = t, figures = figs\<rparr>" s e fs a] s e fs by simp
  have 2: "plot a \<lparr>self = t, figures = figs @ [?ds]\<rparr>
      = (Inr (Suc (length figs)), \<lparr>self = t, figures = figs @ [?ds, ?ds]\<rparr>)"
    using plot_complete [of "\<lparr>self = t, figures = figs @ [?ds]\<rparr>" s e fs a] s e fs by simp
  have lim: "Set_lim (0, 1) (s, e) \<in> set ?ds"
    and ticks: "Set_xticks (arange (first_tick s) (final_tick e) 100) \<in> set ?ds"
    by (simp_all add: complete_chart_def)
  have lines: "drawn_fences ?ds = (if fences a then map (\<lambda>y. [y, y]) fs else [])"
    by (rule drawn_fences_complete_chart)
  from 1 2 lim ticks lines s e fs show ?thesis
    by (intro exI [of _ "Inr (length figs)"] exI [of _ "Inr (Suc (length figs))"]
          exI [of _ ?ds]) simp
qed

theorem plot_twice_witness:
  "\<exists>ds. plot plot_defaults \<lparr>self = rows_and_years, figures = []\<rparr>
          = (Inr 0, \<lparr>self = rows_and_years, figures = [ds]\<rparr>)
     \<and> plot plot_defaults \<lparr>self = rows_and_years, figures = [ds]\<rparr>
          = (Inr 1, \<lparr>self = rows_and_years, figures = [ds, ds]\<rparr>)
     \<and> Set_lim (0, 1) (100, 250) \<in> set ds
     \<and> Set_xticks [100, 200] \<in> set ds
     \<and> drawn_fences ds = [[15, 15], [30, 30], [50, 50]]"
proof -
  have s: "start rows_and_years = Inr 100" and e: "end' rows_and_years = Inr 250"
    by (simp_all add: start_def end'_def all_years_rows_and_years)
  have fs: "y_fences (y_countries_of rows_and_years) = Inr [15, 30, 50]"
    by (simp add: y_countries_rows_and_years y_fences_10_20_40)
  have ar: "arange (first_tick 100) (final_tick 250) 100 = [100, 200]"
    by (simp add: first_tick_def final_tick_def floordiv_def arange_def upt_conv_Cons)
  have f: "fences plot_defaults"
    by (simp add: plot_defaults_def)
  from plot_twice [of plot_defaults rows_and_years "[]"]
  obtain r1 r2 ds1 ds2 where
    1: "plot plot_defaults \<lparr>self = rows_and_years, figures = []\<rparr>
          = (r1, \<lparr>self = rows_and_years, figures = [ds1]\<rparr>)"
    and 2: "plot plot_defaults \<lparr>self = rows_and_years, figures = [ds1]\<rparr>
          = (r2, \<lparr>self = rows_and_years, figures = [ds1, ds2]\<rparr>)"
    and same: "ds2 = ds1"
    and r: "r1 = Inl ValueError \<and> r2 = Inl ValueError \<or> r1 = Inr 0 \<and> r2 = Inr (Suc 0)"
    and d: "\<forall>s e fs. start rows_and_years = Inr s \<and> end' rows_and_years = Inr e
              \<and> y_fences (y_countries_of rows_and_years) = Inr fs \<longrightarrow>
            r1 = Inr 0
            \<and> Set_lim (0, 1) (s, e) \<in> set ds1
            \<and> Set_xticks (arange (first_tick s) (final_tick e) 100) \<in> set ds1
            \<and> drawn_fences ds1 = (if fences plot_defaults then map (\<lambda>y. [y, y]) fs else [])"
    by auto
  from d s e fs have "r1 = Inr 0" and "Set_lim (0, 1) (100, 250) \<in> set ds1"
    and "Set_xticks (arange (first_tick 100) (final_tick 250) 100) \<in> set ds1"
    and "drawn_fences ds1 = (if fences plot_defaults then map (\<lambda>y. [y, y]) [15, 30, 50] else [])"
    by blast+
  with 1 2 same r f ar show ?thesis
    by (intro exI [of _ ds1]) auto
qed

text \<open>
  C10. Each insertion method changes only its own collection, and there only the entry
  under the name it was given: the three other collections are the same, every other name
  of its collection maps to the record it had, and the entries under the other names are
  the same list, in the same order.
\<close>

theorem insertion_frame:
  "periods (add_age name s e color y top_alpha bottom_alpha url t) = periods t
   \<and> events (add_age name s e color y top_alpha bottom_alpha url t) = events t
   \<and> countries (add_age name s e color y top_alpha bottom_alpha url t) = countries t
   \<and> (\<forall>other. other \<noteq> name \<longrightarrow>
         dict_get (ages (add_age name s e color y top_alpha bottom_alpha url t)) other
         = dict_get (ages t) other)
   \<and> filter (\<lambda>kv. fst kv \<noteq> name) (ages (add_age name s e color y top_alpha bottom_alpha url t))
       = filter (\<lambda>kv. fst kv \<noteq> name) (ages t)
   \<and> ages (add_period name s e py color alpha fontsize bold h url t) = ages t
   \<and> events (add_period name s e py color alpha fontsize bold h url t) = events t
   \<and> countries (add_period name s e py color alpha fontsize bold h url t) = countries t
   \<and> (\<forall>other. other \<noteq> name \<longrightarrow>
         dict_get (periods (add_period name s e py color alpha fontsize bold h url t)) other
         = dict_get (periods t) other)
   \<and> filter (\<lambda>kv. fst kv \<noteq> name)
        (periods (add_period name s e py color alpha fontsize bold h url t))
       = filter (\<lambda>kv. fst kv \<noteq> name) (periods t)
   \<and> ages (add_event name year py ecolor fontsize bold url t) = ages t
   \<and> periods (add_event name year py ecolor fontsize bold url t) = periods t
   \<and> countries (add_event name year py ecolor fontsize bold url t) = countries t
   \<and> (\<forall>other. other \<noteq> name \<longrightarrow>
         dict_get (events (add_event name year py ecolor fontsize bold url t)) other
         = dict_get (events t) other)
   \<and> filter (\<lambda>kv. fst kv \<noteq> name) (events (add_event name year py ecolor fontsize bold url t))
       = filter (\<lambda>kv. fst kv \<noteq> name) (events t)
   \<and> ages (add_country name py url t) = ages t
   \<and> periods (add_country name py url t) = periods t
   \<and> events (add_country name py url t) = events t
   \<and> (\<forall>other. other \<noteq> name \<longrightarrow>
         dict_get (countries (add_country name py url t)) other = dict_get (countries t) other)
   \<and> filter (\<lambda>kv. fst kv \<noteq> name) (countries (add_country name py url t))
       = filter (\<lambda>kv. fst kv \<noteq> name) (countries t)"
  by (simp add: add_age_def add_period_def add_event_def add_country_def dict_set_def
        dict_get_def map_of_update_other filter_update_other)

theorem insertion_frame_witness:
  "dict_get (ages (add_age ''Bronze Age'' 0 50 ''green'' None None None None old_and_new_age))
     ''Iron Age''
   = dict_get (ages old_and_new_age) ''Iron Age''
   \<and> dict_get (ages old_and_new_age) ''Iron Age''
       = Some (Age_init 300 400 ''blue'' None None None None)
   \<and> countries (add_age ''Bronze Age'' 0 50 ''green'' None None None None old_and_new_age) = []"
proof -
  have ne: "''Iron Age'' \<noteq> ''Bronze Age''"
    by simp
  have a: "dict_get (ages old_and_new_age) ''Iron Age''
      = Some (Age_init 300 400 ''blue'' None None None None)"
    by (simp add: old_and_new_age_def add_age_def dict_set_def dict_get_def Timeline_init_def)
  have c: "countries old_and_new_age = []"
    by (simp add: old_and_new_age_def add_age_def Timeline_init_def)
  from insertion_frame [of "''Bronze Age''" 0 50 "''green''" None None None None old_and_new_age]
    ne a c
  show ?thesis
    by simp
qed

end
